theory Spec2Isabelle
  imports Main
begin

section \<open>Loop helpers of torchtnt.framework._loop_utils\<close>

subsection \<open>Progress counters and the completion predicates\<close>

text \<open>
  \<open>Progress\<close> (torchtnt.utils.progress) is read by the helpers through three integer
  attributes. Python integers are unbounded, hence \<open>int\<close>. An \<open>Optional[int]\<close> maximum
  is an \<open>int option\<close>, with \<open>None\<close> for Python's \<open>None\<close>.
\<close>

record Progress =
  num_epochs_completed :: int
  num_steps_completed :: int
  num_steps_completed_in_epoch :: int

text \<open>
  Each disjunct of the source is \<^verbatim>\<open>m is not None and counter >= m\<close>; the \<open>case\<close>
  on the option is that guarded comparison.
\<close>

definition is_done :: "Progress \<Rightarrow> int option \<Rightarrow> int option \<Rightarrow> bool" where
  "is_done progress max_epochs max_steps =
     ((case max_steps of None \<Rightarrow> False | Some m \<Rightarrow> num_steps_completed progress \<ge> m) \<or>
      (case max_epochs of None \<Rightarrow> False | Some m \<Rightarrow> num_epochs_completed progress \<ge> m))"

definition is_epoch_done :: "Progress \<Rightarrow> int option \<Rightarrow> int option \<Rightarrow> bool" where
  "is_epoch_done progress max_steps_per_epoch max_steps =
     ((case max_steps of None \<Rightarrow> False | Some m \<Rightarrow> num_steps_completed progress \<ge> m) \<or>
      (case max_steps_per_epoch of None \<Rightarrow> False
       | Some m \<Rightarrow> num_steps_completed_in_epoch progress \<ge> m))"

subsection \<open>Modules and their training flag\<close>

text \<open>
  A \<open>Dict[str, nn.Module]\<close> holds references: two names may refer to one module object,
  and a module may be a submodule of another one in the dictionary. Module objects are
  therefore addresses into a store. \<open>training\<close> is the flag of each object;
  \<open>descendants s m\<close> lists the modules below \<open>m\<close> (its children, their children, and so
  on), which is where \<open>nn.Module.train\<close> recurses:
  \<^verbatim>\<open>
  def train(self, mode=True):
      self.training = mode
      for module in self.children():
          module.train(mode)
      return self
  \<close>
\<close>

type_synonym addr = nat

record module_store =
  training :: "addr \<Rightarrow> bool"
  descendants :: "addr \<Rightarrow> addr list"

definition train :: "addr \<Rightarrow> bool \<Rightarrow> module_store \<Rightarrow> module_store" where
  "train m mode s =
     s\<lparr>training := (\<lambda>x. if x = m \<or> x \<in> set (descendants s m) then mode else training s x)\<rparr>"

text \<open>
  The dictionary is an association list in insertion order, the order in which
  \<open>modules.items()\<close> iterates. The loop of \<open>_set_module_training_mode\<close> carries the
  dictionary \<open>prior_module_train_states\<close> built so far and the store.
\<close>

fun set_modes_loop ::
  "(string \<times> addr) list \<Rightarrow> bool \<Rightarrow> (string \<rightharpoonup> bool) \<Rightarrow> module_store
     \<Rightarrow> (string \<rightharpoonup> bool) \<times> module_store" where
  "set_modes_loop [] mode prior s = (prior, s)"
| "set_modes_loop ((name, m) # rest) mode prior s =
     set_modes_loop rest mode (prior(name \<mapsto> training s m)) (train m mode s)"

definition set_module_training_mode ::
  "(string \<times> addr) list \<Rightarrow> bool \<Rightarrow> module_store \<Rightarrow> (string \<rightharpoonup> bool) \<times> module_store" where
  "set_module_training_mode modules mode s = set_modes_loop modules mode Map.empty s"

fun reset_module_training_mode ::
  "(string \<times> addr) list \<Rightarrow> (string \<rightharpoonup> bool) \<Rightarrow> module_store \<Rightarrow> module_store" where
  "reset_module_training_mode [] prior_modes s = s"
| "reset_module_training_mode ((name, m) # rest) prior_modes s =
     reset_module_training_mode rest prior_modes
       (case prior_modes name of None \<Rightarrow> s | Some p \<Rightarrow> train m p s)"

text \<open>
  \<open>reaches s m x\<close>: a call of \<open>train\<close> on \<open>m\<close> writes the flag of \<open>x\<close>. The entries of a
  dictionary are \<open>unrelated\<close> when no entry's module is reached from the module of
  another entry, so neither the same object under two names nor a module together with
  one of its submodules.
\<close>

definition reaches :: "module_store \<Rightarrow> addr \<Rightarrow> addr \<Rightarrow> bool" where
  "reaches s m x = (x = m \<or> x \<in> set (descendants s m))"

fun unrelated :: "module_store \<Rightarrow> (string \<times> addr) list \<Rightarrow> bool" where
  "unrelated s [] = True"
| "unrelated s ((name, m) # rest) =
     (list_all (\<lambda>(n, x). \<not> reaches s m x \<and> \<not> reaches s x m) rest \<and> unrelated s rest)"

text \<open>
  A unit that keeps one module under two attribute names: a single object at address 0,
  without submodules, in training mode.
\<close>

definition shared_store :: module_store where
  "shared_store = \<lparr>training = (\<lambda>_. True), descendants = (\<lambda>_. [])\<rparr>"

definition shared_modules :: "(string \<times> addr) list" where
  "shared_modules = [(''a'', 0), (''b'', 0)]"


subsection \<open>Errors\<close>

text \<open>
  The exceptions the modelled operations can raise. A function that may raise returns
  \<open>py_error + 'a\<close>, with \<open>Inl\<close> for the exception.
\<close>

datatype py_error = TypeError | AttributeError string

subsection \<open>The distributed sampler of a dataloader\<close>

text \<open>
  The argument of \<open>_maybe_set_distributed_sampler_epoch\<close> is any iterable. Of its class only
  \<open>isinstance(dataloader, torch.utils.data.DataLoader)\<close> is observed, and of a DataLoader
  only its \<open>sampler\<close> attribute, a reference to a sampler object. Of a sampler only
  \<open>isinstance(sampler, DistributedSampler)\<close> is observed; \<open>DistributedSampler.set_epoch\<close>
  assigns the \<open>epoch\<close> attribute.
\<close>

datatype sampler = DistributedSampler (epoch: int) | Other_sampler

datatype iterable = DataLoader (sampler_ref: addr) | Other_iterable

type_synonym sampler_store = "addr \<Rightarrow> sampler"

text \<open>Reading \<open>dataloader.sampler\<close> raises on an object without that attribute.\<close>

fun get_sampler :: "iterable \<Rightarrow> py_error + addr" where
  "get_sampler (DataLoader a) = Inr a"
| "get_sampler Other_iterable = Inl (AttributeError ''sampler'')"

fun is_DataLoader :: "iterable \<Rightarrow> bool" where
  "is_DataLoader (DataLoader a) = True"
| "is_DataLoader Other_iterable = False"

fun is_DistributedSampler :: "sampler \<Rightarrow> bool" where
  "is_DistributedSampler (DistributedSampler e) = True"
| "is_DistributedSampler Other_sampler = False"

definition set_epoch :: "addr \<Rightarrow> int \<Rightarrow> sampler_store \<Rightarrow> sampler_store" where
  "set_epoch a e h = h(a := DistributedSampler e)"

text \<open>
  The condition is \<open>isinstance(dataloader, DataLoader) and isinstance(dataloader.sampler,
  DistributedSampler)\<close>: the attribute is read only after the first test has succeeded.
\<close>

definition maybe_set_distributed_sampler_epoch ::
  "iterable \<Rightarrow> int \<Rightarrow> sampler_store \<Rightarrow> py_error + sampler_store" where
  "maybe_set_distributed_sampler_epoch dataloader current_epoch h =
     (if is_DataLoader dataloader then
        (case get_sampler dataloader of
           Inl e \<Rightarrow> Inl e
         | Inr a \<Rightarrow>
             if is_DistributedSampler (h a) then Inr (set_epoch a current_epoch h) else Inr h)
      else Inr h)"

subsection \<open>Inspecting the signature of a step function\<close>

text \<open>
  Class objects are named by their qualified name; \<open>is\<close> on two classes is equality of
  the names. An annotation is either a plain object (a class, or a string under postponed
  evaluation), for which \<open>typing_extensions.get_origin\<close> is \<open>None\<close>, or a generic alias
  such as \<open>Iterator[Batch]\<close>, whose origin is the class it parameterises.
\<close>

type_synonym py_class = string

definition abc_Iterator :: py_class where
  "abc_Iterator = ''collections.abc.Iterator''"

datatype annotation = Plain string | Generic_alias py_class "annotation list"

fun get_origin :: "annotation \<Rightarrow> py_class option" where
  "get_origin (Plain c) = None"
| "get_origin (Generic_alias c params) = Some c"

text \<open>
  \<open>inspect.getfullargspec\<close> returns a named tuple, of which the helper reads
  \<open>annotations\<close>, a dictionary from parameter names (and \<open>return\<close>) to annotations. It
  raises \<open>TypeError\<close> on a callable whose signature it cannot read.
\<close>

record FullArgSpec =
  args :: "string list"
  annotations :: "(string \<times> annotation) list"

datatype step_func = Function FullArgSpec | Unsupported_callable

fun getfullargspec :: "step_func \<Rightarrow> py_error + FullArgSpec" where
  "getfullargspec (Function spec) = Inr spec"
| "getfullargspec Unsupported_callable = Inl TypeError"

text \<open>The records handed to \<open>_logger\<close>; the warning's message quotes the annotations.\<close>

datatype log_record = Warning_no_data_annotation "(string \<times> annotation) list"

definition step_requires_iterator ::
  "step_func \<Rightarrow> log_record list \<Rightarrow> py_error + (bool \<times> log_record list)" where
  "step_requires_iterator step_func logged =
     (case getfullargspec step_func of
        Inl e \<Rightarrow> Inl e
      | Inr argspec \<Rightarrow>
          (case map_of (annotations argspec) ''data'' of
             None \<Rightarrow>
               Inr (False, logged @ [Warning_no_data_annotation (annotations argspec)])
           | Some annotated_type \<Rightarrow>
               Inr (get_origin annotated_type = Some abc_Iterator, logged)))"

section \<open>The TensorBoard logger adapter\<close>

text \<open>
  \<open>torchtnt/utils/loggers/tensorboard.py\<close> is not among the sources; its tests are. The
  adapter is modelled from the specification. What the adapter does to the file system
  goes through the third-party summary writer, so file I/O is the sequence of calls
  made on writers, each with the log directory of the writer that received it.
\<close>

text \<open>
  Modelled from the spec: the environment of the process, in which the variable \<open>RANK\<close>
  holds a string integer.
\<close>

type_synonym environ = "string \<rightharpoonup> string"

text \<open>
  Modelled from the spec: a string integer is a non-empty string of decimal digits, a
  rank being a count from zero. The spec names the format of \<open>RANK\<close> and nothing more.
\<close>

definition is_digit :: "char \<Rightarrow> bool" where
  "is_digit c = (c \<in> set ''0123456789'')"

text \<open>Modelled from the spec: the value of a decimal digit.\<close>

definition digit_value :: "char \<Rightarrow> nat" where
  "digit_value c = of_char c - of_char CHR ''0''"

text \<open>Modelled from the spec: the value of a string of decimal digits.\<close>

definition nat_of_digits :: "string \<Rightarrow> nat" where
  "nat_of_digits ds = foldl (\<lambda>n c. 10 * n + digit_value c) 0 ds"

text \<open>Modelled from the spec: the integer a string denotes, \<open>None\<close> when it denotes none.\<close>

definition int_of_string :: "string \<Rightarrow> int option" where
  "int_of_string s =
     (if s \<noteq> [] \<and> list_all is_digit s then Some (int (nat_of_digits s)) else None)"

text \<open>
  Modelled from the spec: the rank indicator read from the environment. The tests build a
  logger without \<open>RANK\<close> and expect it to write, so an absent variable is rank zero; the
  spec does not say what a value that is no integer means, and it is taken as rank zero
  too.
\<close>

definition global_rank :: "environ \<Rightarrow> int" where
  "global_rank env =
     (case env ''RANK'' of
        None \<Rightarrow> 0
      | Some r \<Rightarrow> (case int_of_string r of None \<Rightarrow> 0 | Some n \<Rightarrow> n))"

text \<open>
  Modelled from the spec: the calls the adapter makes on the third-party summary writer:
  creating it for a directory, writing a scalar, several scalars under a main tag with an
  optional wall-clock time, or a text at a step, flushing, and releasing it. The scalar
  type \<open>'v\<close> is left open, since the adapter passes scalars on without computing on them.
\<close>

datatype 'v writer_call =
    Create_writer
  | Add_scalar string 'v int
  | Add_scalars string "(string \<times> 'v) list" int "'v option"
  | Add_text string string int
  | Flush
  | Close_writer

text \<open>Modelled from the spec: file I/O, as the calls received by the writer of each directory.\<close>

type_synonym 'v file_io = "(string \<times> 'v writer_call) list"

text \<open>
  Modelled from the spec: the adapter holds its path and a writer handle, which is
  absent on every process but the designated one. A handle is the writer's directory.
\<close>

record TensorBoardLogger =
  path :: string
  writer :: "string option"

text \<open>
  Modelled from the spec: the constructor reads the rank indicator once and binds a
  writer to the path only on rank zero.
\<close>

definition TensorBoardLogger_init ::
  "string \<Rightarrow> environ \<Rightarrow> 'v file_io \<Rightarrow> TensorBoardLogger \<times> 'v file_io" where
  "TensorBoardLogger_init p env io =
     (if global_rank env = 0
      then (\<lparr>path = p, writer = Some p\<rparr>, io @ [(p, Create_writer)])
      else (\<lparr>path = p, writer = None\<rparr>, io))"

text \<open>
  Modelled from the spec: \<open>log\<close> writes a scalar at a step; without a writer it does
  nothing.
\<close>

definition log ::
  "string \<Rightarrow> 'v \<Rightarrow> int \<Rightarrow> TensorBoardLogger \<times> 'v file_io \<Rightarrow> TensorBoardLogger \<times> 'v file_io" where
  "log tag scalar_value step = (\<lambda>(l, io).
     case writer l of
       None \<Rightarrow> (l, io)
     | Some w \<Rightarrow> (l, io @ [(w, Add_scalar tag scalar_value step)]))"

text \<open>
  Modelled from the spec: \<open>log_dict\<close> writes one independent scalar record per tag of the
  mapping, each at the given step.
\<close>

definition log_dict ::
  "(string \<times> 'v) list \<Rightarrow> int \<Rightarrow> TensorBoardLogger \<times> 'v file_io
     \<Rightarrow> TensorBoardLogger \<times> 'v file_io" where
  "log_dict payload step = (\<lambda>(l, io).
     case writer l of
       None \<Rightarrow> (l, io)
     | Some w \<Rightarrow> (l, io @ map (\<lambda>(tag, v). (w, Add_scalar tag v step)) payload))"

text \<open>
  Modelled from the spec: \<open>log_scalars\<close> forwards the main tag, the mapping, the step and
  the wall-clock time to the writer.
\<close>

definition log_scalars ::
  "string \<Rightarrow> (string \<times> 'v) list \<Rightarrow> int \<Rightarrow> 'v option \<Rightarrow> TensorBoardLogger \<times> 'v file_io
     \<Rightarrow> TensorBoardLogger \<times> 'v file_io" where
  "log_scalars main_tag tag_scalar_dict step walltime = (\<lambda>(l, io).
     case writer l of
       None \<Rightarrow> (l, io)
     | Some w \<Rightarrow> (l, io @ [(w, Add_scalars main_tag tag_scalar_dict step walltime)]))"

text \<open>Modelled from the spec: \<open>log_text\<close> writes a string value at a step.\<close>

definition log_text ::
  "string \<Rightarrow> string \<Rightarrow> int \<Rightarrow> TensorBoardLogger \<times> 'v file_io
     \<Rightarrow> TensorBoardLogger \<times> 'v file_io" where
  "log_text tag txt step = (\<lambda>(l, io).
     case writer l of
       None \<Rightarrow> (l, io)
     | Some w \<Rightarrow> (l, io @ [(w, Add_text tag txt step)]))"

text \<open>Modelled from the spec: \<open>close\<close> flushes and releases the writer.\<close>

definition close :: "TensorBoardLogger \<times> 'v file_io \<Rightarrow> TensorBoardLogger \<times> 'v file_io" where
  "close = (\<lambda>(l, io).
     case writer l of
       None \<Rightarrow> (l, io)
     | Some w \<Rightarrow> (l\<lparr>writer := None\<rparr>, io @ [(w, Flush), (w, Close_writer)]))"

text \<open>
  Modelled from the spec: the external interface of one adapter instance, and a sequence
  of calls on it.
\<close>

datatype 'v logger_call =
    Log string 'v int
  | Log_dict "(string \<times> 'v) list" int
  | Log_scalars string "(string \<times> 'v) list" int "'v option"
  | Log_text string string int
  | Close

text \<open>Modelled from the spec: one call on the adapter.\<close>

fun call ::
  "'v logger_call \<Rightarrow> TensorBoardLogger \<times> 'v file_io \<Rightarrow> TensorBoardLogger \<times> 'v file_io" where
  "call (Log tag v step) = log tag v step"
| "call (Log_dict payload step) = log_dict payload step"
| "call (Log_scalars main_tag d step walltime) = log_scalars main_tag d step walltime"
| "call (Log_text tag txt step) = log_text tag txt step"
| "call Close = close"

text \<open>Modelled from the spec: the calls made on the adapter during its life, in order.\<close>

definition calls ::
  "'v logger_call list \<Rightarrow> TensorBoardLogger \<times> 'v file_io \<Rightarrow> TensorBoardLogger \<times> 'v file_io" where
  "calls cs st = fold call cs st"

section \<open>Properties of the loop helpers and of the adapter\<close>

subsection \<open>Completion predicates\<close>

text \<open>
  C1. For every progress value and every pair of optional maximums, \<open>_is_done\<close> is true
  exactly when the step maximum is set and reached by the completed steps, or the epoch
  maximum is set and reached by the completed epochs. With both maximums \<open>None\<close> it is
  false whatever the counters are.
\<close>

theorem is_done_iff:
  "(is_done progress max_epochs max_steps \<longleftrightarrow>
      (\<exists>m. max_steps = Some m \<and> num_steps_completed progress \<ge> m) \<or>
      (\<exists>m. max_epochs = Some m \<and> num_epochs_completed progress \<ge> m))
   \<and> is_done progress None None = False"
  by (cases max_steps; cases max_epochs) (simp_all add: is_done_def)

text \<open>
  C4. \<open>_is_epoch_done\<close> is the two-term disjunction over its optional thresholds: the
  step maximum against the completed steps, the per-epoch maximum against the steps
  completed in the current epoch. It is a function of its arguments alone.
\<close>

theorem is_epoch_done_iff:
  "is_epoch_done progress max_steps_per_epoch max_steps \<longleftrightarrow>
     (\<exists>m. max_steps = Some m \<and> num_steps_completed progress \<ge> m) \<or>
     (\<exists>m. max_steps_per_epoch = Some m \<and> num_steps_completed_in_epoch progress \<ge> m)"
  by (cases max_steps; cases max_steps_per_epoch) (simp_all add: is_epoch_done_def)

subsection \<open>Saving and restoring the training flags\<close>

lemma descendants_train [simp]: "descendants (train m mode s) = descendants s"
  by (simp add: train_def)

lemma training_train:
  "training (train m mode s) x = (if reaches s m x then mode else training s x)"
  by (simp add: train_def reaches_def)

lemma reaches_train [simp]: "reaches (train m mode s) = reaches s"
  by (simp add: reaches_def fun_eq_iff)

lemma descendants_set_loop:
  "descendants (snd (set_modes_loop ms mode prior s)) = descendants s"
  by (induction ms arbitrary: prior s) auto

lemma reaches_set_loop:
  "reaches (snd (set_modes_loop ms mode prior s)) = reaches s"
  by (simp add: reaches_def fun_eq_iff descendants_set_loop)

lemma descendants_reset:
  "descendants (reset_module_training_mode ms prior s) = descendants s"
  by (induction ms arbitrary: s) (auto split: option.splits)

text \<open>What one pass of either loop does to a flag it has already set to the target.\<close>

lemma set_loop_keeps_mode:
  "training s x = mode \<Longrightarrow> training (snd (set_modes_loop ms mode prior s)) x = mode"
  by (induction ms arbitrary: prior s) (auto simp: training_train)

lemma set_loop_all_mode:
  "(n, m) \<in> set ms \<Longrightarrow> training (snd (set_modes_loop ms mode prior s)) m = mode"
proof (induction ms arbitrary: prior s)
  case Nil
  then show ?case by simp
next
  case (Cons a ms)
  obtain n' m' where a: "a = (n', m')" by (cases a)
  show ?case
  proof (cases "(n, m) = a")
    case True
    then have "training (train m' mode s) m = mode"
      using a by (simp add: training_train reaches_def)
    then show ?thesis using a by (simp add: set_loop_keeps_mode)
  next
    case False
    then have "(n, m) \<in> set ms" using Cons.prems by simp
    then show ?thesis using a Cons.IH by simp
  qed
qed

lemma set_loop_untouched:
  "\<forall>(n, m) \<in> set ms. \<not> reaches s m x \<Longrightarrow>
   training (snd (set_modes_loop ms mode prior s)) x = training s x"
  by (induction ms arbitrary: prior s) (auto simp: training_train)

lemma set_loop_prior_other:
  "name \<notin> fst ` set ms \<Longrightarrow> fst (set_modes_loop ms mode prior s) name = prior name"
  by (induction ms arbitrary: prior s) auto

lemma set_loop_dom:
  "dom (fst (set_modes_loop ms mode prior s)) = dom prior \<union> fst ` set ms"
proof (induction ms arbitrary: prior s)
  case Nil
  then show ?case by simp
next
  case (Cons a ms)
  obtain n m where a: "a = (n, m)" by (cases a)
  have "dom (fst (set_modes_loop (a # ms) mode prior s))
          = dom (prior(n \<mapsto> training s m)) \<union> fst ` set ms"
    unfolding a set_modes_loop.simps by (rule Cons.IH)
  also have "\<dots> = dom prior \<union> fst ` set (a # ms)"
    by (simp add: a)
  finally show ?case .
qed

lemma unrelated_cong:
  "reaches s' = reaches s \<Longrightarrow> unrelated s' ms = unrelated s ms"
  by (induction ms) auto

lemma set_loop_prior:
  "distinct (map fst ms) \<Longrightarrow> unrelated s ms \<Longrightarrow> (n, m) \<in> set ms \<Longrightarrow>
   fst (set_modes_loop ms mode prior s) n = Some (training s m)"
proof (induction ms arbitrary: prior s)
  case Nil
  then show ?case by simp
next
  case (Cons a ms)
  obtain n' m' where a: "a = (n', m')" by (cases a)
  show ?case
  proof (cases "(n, m) = a")
    case True
    then show ?thesis using a Cons.prems(1) by (simp add: set_loop_prior_other)
  next
    case False
    then have mem: "(n, m) \<in> set ms" using Cons.prems by simp
    have "\<not> reaches s m' m" using Cons.prems(2) mem a by (auto simp: list_all_iff)
    then have same: "training (train m' mode s) m = training s m"
      by (simp add: training_train)
    have "unrelated (train m' mode s) ms"
      using Cons.prems(2) a by (simp add: unrelated_cong[of "train m' mode s" s])
    then show ?thesis using a Cons.IH[of "train m' mode s"] Cons.prems(1) mem same by simp
  qed
qed

lemma reset_untouched:
  "\<forall>(n, m) \<in> set ms. \<not> reaches s m x \<Longrightarrow>
   training (reset_module_training_mode ms prior s) x = training s x"
  by (induction ms arbitrary: s) (auto simp: training_train split: option.splits)

lemma reset_restores:
  "distinct (map fst ms) \<Longrightarrow> unrelated s ms \<Longrightarrow> (n, m) \<in> set ms \<Longrightarrow> prior n = Some p \<Longrightarrow>
   training (reset_module_training_mode ms prior s) m = p"
proof (induction ms arbitrary: s)
  case Nil
  then show ?case by simp
next
  case (Cons a ms)
  obtain n' m' where a: "a = (n', m')" by (cases a)
  define s1 where "s1 = (case prior n' of None \<Rightarrow> s | Some q \<Rightarrow> train m' q s)"
  have r: "reaches s1 = reaches s" by (simp add: s1_def split: option.splits)
  have u: "unrelated s1 ms" using Cons.prems(2) a by (simp add: unrelated_cong[OF r])
  show ?case
  proof (cases "(n, m) = a")
    case True
    then have "training s1 m = p"
      using a Cons.prems(4) by (simp add: s1_def training_train reaches_def)
    moreover have "\<forall>(k, x) \<in> set ms. \<not> reaches s1 x m"
      using Cons.prems(2) a True by (auto simp: list_all_iff r)
    ultimately show ?thesis
      using a by (simp add: s1_def[symmetric] reset_untouched)
  next
    case False
    then have "(n, m) \<in> set ms" using Cons.prems(3) by simp
    then show ?thesis
      using a Cons.IH[OF _ u] Cons.prems(1,4) by (simp add: s1_def[symmetric])
  qed
qed

lemma round_trip:
  assumes "distinct (map fst modules)" and "unrelated s modules"
    and "(n, m) \<in> set modules"
    and "set_module_training_mode modules mode s = (prior, s1)"
  shows "training (reset_module_training_mode modules prior s1) m = training s m"
proof -
  have p: "prior n = Some (training s m)"
    using set_loop_prior[OF assms(1,2,3), of mode Map.empty] assms(4)
    by (simp add: set_module_training_mode_def)
  have "reaches s1 = reaches s"
    using reaches_set_loop[of modules mode Map.empty s] assms(4)
    by (simp add: set_module_training_mode_def)
  then have u: "unrelated s1 modules" using assms(2) by (simp add: unrelated_cong[of s1 s])
  show ?thesis
    using assms(1) u assms(3) p by (rule reset_restores[where prior = prior and n = n])
qed

text \<open>
  C2. Calling \<open>_set_module_training_mode\<close> and then \<open>_reset_module_training_mode\<close> with the
  returned dictionary is meant to put every module of the mapping back to the flag it
  had. With one module under the names \<open>a\<close> and \<open>b\<close>, in training mode, and the target
  mode \<open>False\<close>, the second entry records the flag the first entry has just written, and
  the reset leaves the module in evaluation mode.
\<close>

theorem reset_after_set_shared_module:
  "training shared_store 0 = True \<and>
   training (reset_module_training_mode shared_modules
               (fst (set_module_training_mode shared_modules False shared_store))
               (snd (set_module_training_mode shared_modules False shared_store))) 0 = False"
  by (simp add: shared_store_def shared_modules_def set_module_training_mode_def train_def)

text \<open>
  C3. After \<open>_set_module_training_mode\<close> every module of the mapping has the target mode,
  and the returned dictionary is meant to hold, for each name, the flag its module had
  before the call. In the same situation as above the dictionary holds \<open>False\<close> for \<open>b\<close>,
  whose module was in training mode before the call.
\<close>

theorem set_mode_shared_module_prior:
  "training shared_store (the (map_of shared_modules ''b'')) = True \<and>
   fst (set_module_training_mode shared_modules False shared_store) ''a'' = Some True \<and>
   fst (set_module_training_mode shared_modules False shared_store) ''b'' = Some False"
  by (simp add: shared_store_def shared_modules_def set_module_training_mode_def train_def)


subsection \<open>The epoch of a distributed sampler\<close>

lemma set_epoch_frame:
  "set_epoch a e h a = DistributedSampler e \<and> (x \<noteq> a \<longrightarrow> set_epoch a e h x = h x)"
  by (simp add: set_epoch_def)

text \<open>
  C10. \<open>_maybe_set_distributed_sampler_epoch\<close> calls \<open>set_epoch(current_epoch)\<close> on the sampler
  when the argument is a DataLoader whose sampler is a DistributedSampler. On every other
  iterable, and on a DataLoader with another sampler, it returns with nothing changed. It
  raises in neither case.
\<close>

theorem maybe_set_distributed_sampler_epoch_frame:
  "(dataloader = DataLoader a \<and> is_DistributedSampler (h a) \<longrightarrow>
      maybe_set_distributed_sampler_epoch dataloader current_epoch h =
        Inr (set_epoch a current_epoch h)) \<and>
   (\<not> (\<exists>a. dataloader = DataLoader a \<and> is_DistributedSampler (h a)) \<longrightarrow>
      maybe_set_distributed_sampler_epoch dataloader current_epoch h = Inr h)"
  by (cases dataloader) (simp_all add: maybe_set_distributed_sampler_epoch_def)

theorem maybe_set_distributed_sampler_epoch_frame_witness:
  "maybe_set_distributed_sampler_epoch (DataLoader 0) 3
       ((\<lambda>_. Other_sampler)(0 := DistributedSampler 0)) =
     Inr (set_epoch 0 3 ((\<lambda>_. Other_sampler)(0 := DistributedSampler 0))) \<and>
   maybe_set_distributed_sampler_epoch (DataLoader 1) 3
       ((\<lambda>_. Other_sampler)(0 := DistributedSampler 0)) =
     Inr ((\<lambda>_. Other_sampler)(0 := DistributedSampler 0)) \<and>
   maybe_set_distributed_sampler_epoch Other_iterable 3
       ((\<lambda>_. Other_sampler)(0 := DistributedSampler 0)) =
     Inr ((\<lambda>_. Other_sampler)(0 := DistributedSampler 0))"
  using
    maybe_set_distributed_sampler_epoch_frame
      [of "DataLoader 0" 0 "(\<lambda>_. Other_sampler)(0 := DistributedSampler 0)" 3]
    maybe_set_distributed_sampler_epoch_frame
      [of "DataLoader 1" 0 "(\<lambda>_. Other_sampler)(0 := DistributedSampler 0)" 3]
    maybe_set_distributed_sampler_epoch_frame
      [of Other_iterable 0 "(\<lambda>_. Other_sampler)(0 := DistributedSampler 0)" 3]
  by simp

subsection \<open>Signature inspection\<close>

text \<open>
  C5. For a step function whose signature has no annotation named \<open>data\<close>,
  \<open>_step_requires_iterator\<close> logs one warning and returns \<open>False\<close>; it does not raise. It
  returns \<open>True\<close> exactly when the signature has a \<open>data\<close> annotation whose origin is
  \<open>collections.abc.Iterator\<close>, and then it logs nothing.
\<close>

theorem step_requires_iterator_data:
  "(map_of (annotations argspec) ''data'' = None \<longrightarrow>
      step_requires_iterator (Function argspec) logged =
        Inr (False, logged @ [Warning_no_data_annotation (annotations argspec)])) \<and>
   (step_requires_iterator f logged = Inr (True, logged') \<longleftrightarrow>
      (\<exists>spec t. f = Function spec \<and> map_of (annotations spec) ''data'' = Some t \<and>
         get_origin t = Some abc_Iterator) \<and> logged' = logged)"
  by (cases f) (auto simp: step_requires_iterator_def split: option.splits)

theorem step_requires_iterator_data_witness:
  "step_requires_iterator
     (Function \<lparr>args = [''self'', ''state'', ''batch''],
                annotations = [(''state'', Plain ''State''), (''return'', Plain ''None'')]\<rparr>) [] =
     Inr (False,
          [Warning_no_data_annotation [(''state'', Plain ''State''), (''return'', Plain ''None'')]])"
  using step_requires_iterator_data
    [of "\<lparr>args = [''self'', ''state'', ''batch''],
           annotations = [(''state'', Plain ''State''), (''return'', Plain ''None'')]\<rparr>" "[]"]
  by simp

subsection \<open>The rank gate of the logger adapter\<close>

lemma call_no_writer: "writer l = None \<Longrightarrow> call c (l, io) = (l, io)"
  by (cases c) (simp_all add: log_def log_dict_def log_scalars_def log_text_def close_def)

lemma calls_no_writer: "writer l = None \<Longrightarrow> calls cs (l, io) = (l, io)"
  by (induction cs) (simp_all add: calls_def call_no_writer)

text \<open>
  C6. When \<open>RANK\<close> holds a non-zero integer string at construction, the adapter has no
  writer, the construction performs no file I/O, and neither does any sequence of calls
  made on the instance afterwards.
\<close>

theorem nonzero_rank_no_writer:
  assumes "env ''RANK'' = Some r" and "int_of_string r = Some n" and "n \<noteq> 0"
  shows "writer (fst (TensorBoardLogger_init p env io)) = None \<and>
         snd (TensorBoardLogger_init p env io) = io \<and>
         snd (calls cs (TensorBoardLogger_init p env io)) = io"
proof -
  have "global_rank env \<noteq> 0" using assms by (simp add: global_rank_def)
  then have i: "TensorBoardLogger_init p env io = (\<lparr>path = p, writer = None\<rparr>, io)"
    by (simp add: TensorBoardLogger_init_def)
  show ?thesis unfolding i by (simp add: calls_no_writer)
qed

theorem nonzero_rank_no_writer_witness:
  "writer (fst (TensorBoardLogger_init ''/tmp/run'' [''RANK'' \<mapsto> ''1'']
                  ([] :: int file_io))) = None \<and>
   snd (TensorBoardLogger_init ''/tmp/run'' [''RANK'' \<mapsto> ''1'']
          ([] :: int file_io)) = [] \<and>
   snd (calls [Log ''test_log'' (4::int) 2, Log_text ''test_text'' ''iter:0'' 0, Close]
          (TensorBoardLogger_init ''/tmp/run'' [''RANK'' \<mapsto> ''1''] [])) = []"
proof -
  have r: "[''RANK'' \<mapsto> ''1''] ''RANK'' = Some ''1''" by simp
  have p: "int_of_string ''1'' = Some 1"
    by (simp add: int_of_string_def is_digit_def nat_of_digits_def digit_value_def)
  have z: "(1::int) \<noteq> 0" by simp
  show ?thesis
    using nonzero_rank_no_writer
      [where env = "[''RANK'' \<mapsto> ''1'']" and r = "''1''" and p = "''/tmp/run''"
         and io = "[] :: int file_io"
         and cs = "[Log ''test_log'' (4::int) 2, Log_text ''test_text'' ''iter:0'' 0, Close]",
       OF r p z]
    by simp
qed

subsection \<open>Forwarding of several scalars\<close>

text \<open>
  C7. On an adapter that holds a writer, \<open>log_scalars\<close> makes one call of the writer's
  \<open>add_scalars\<close> with the main tag, the mapping, the step and the wall-clock time it was
  given, unchanged, and nothing else.
\<close>

theorem log_scalars_forwards:
  "writer l = Some w \<Longrightarrow>
   log_scalars main_tag tag_scalar_dict step walltime (l, io) =
     (l, io @ [(w, Add_scalars main_tag tag_scalar_dict step walltime)])"
  by (simp add: log_scalars_def)

theorem log_scalars_forwards_witness:
  "log_scalars ''tnt_metrics'' [(''x'', 0::int), (''y'', 1)] 1 (Some 2)
     (\<lparr>path = ''/tmp'', writer = Some ''/tmp''\<rparr>, [(''/tmp'', Create_writer)]) =
   (\<lparr>path = ''/tmp'', writer = Some ''/tmp''\<rparr>,
    [(''/tmp'', Create_writer),
     (''/tmp'', Add_scalars ''tnt_metrics'' [(''x'', 0), (''y'', 1)] 1 (Some 2))])"
  using log_scalars_forwards
    [of "\<lparr>path = ''/tmp'', writer = Some ''/tmp''\<rparr>" "''/tmp''" "''tnt_metrics''"
        "[(''x'', 0::int), (''y'', 1)]" 1 "Some 2" "[(''/tmp'', Create_writer)]"]
  by simp

end
